theory Spec2Isabelle
  imports Complex_Main "HOL-Library.Multiset"
begin

section \<open>Python values used by app.py\<close>

text \<open>
  Exceptions raised inside app.py or by the libraries it calls. Every constructor but
  \<open>KeyboardInterrupt\<close> is a subclass of Python's \<open>Exception\<close>; \<open>LibraryError cls msg\<close>
  stands for any exception class \<open>cls\<close> of a collaborating library (network, authentication,
  rate limit, storage) carrying the message \<open>msg\<close>.
\<close>

datatype exn =
    ValueError string
  | KeyError string
  | IndexError string
  | NameError string
  | AttributeError string
  | LibraryError string string
  | KeyboardInterrupt

fun is_Exception :: "exn \<Rightarrow> bool" where
  "is_Exception KeyboardInterrupt = False"
| "is_Exception _ = True"

text \<open>A string between single quotes, as \<open>repr\<close> and the interpreter's messages write it.\<close>

definition quoted :: "string \<Rightarrow> string" where
  "quoted s = [CHR 0x27] @ s @ [CHR 0x27]"

text \<open>\<open>str(e)\<close>: the message; for a \<open>KeyError\<close> the repr of the missing key.\<close>

fun str_exn :: "exn \<Rightarrow> string" where
  "str_exn (ValueError m) = m"
| "str_exn (KeyError k) = quoted k"
| "str_exn (IndexError m) = m"
| "str_exn (NameError m) = m"
| "str_exn (AttributeError m) = m"
| "str_exn (LibraryError c m) = m"
| "str_exn KeyboardInterrupt = []"

definition nl :: string where
  "nl = [CHR 0x0A]"

text \<open>\<open>sep.join(parts)\<close>.\<close>

fun py_join :: "string \<Rightarrow> string list \<Rightarrow> string" where
  "py_join sep [] = []"
| "py_join sep [p] = p"
| "py_join sep (p # q # ps) = p @ sep @ py_join sep (q # ps)"

text \<open>\<open>s.endswith(suffix)\<close> and \<open>needle in s\<close> on strings.\<close>

definition endswith :: "string \<Rightarrow> string \<Rightarrow> bool" where
  "endswith s suffix = (length suffix \<le> length s \<and> drop (length s - length suffix) s = suffix)"

fun startswith :: "string \<Rightarrow> string \<Rightarrow> bool" where
  "startswith s [] = True"
| "startswith [] (c # cs) = False"
| "startswith (d # ds) (c # cs) = (d = c \<and> startswith ds cs)"

fun str_contains :: "string \<Rightarrow> string \<Rightarrow> bool" where
  "str_contains needle [] = (needle = [])"
| "str_contains needle (c # cs) = (startswith (c # cs) needle \<or> str_contains needle cs)"

section \<open>The query pipeline: \<open>CVQueryApp.query\<close>\<close>

text \<open>A retrieved langchain \<open>Document\<close>: \<open>metadata\<close> is a dict, \<open>page_content\<close> the text.\<close>

record Document =
  metadata :: "string \<rightharpoonup> string"
  page_content :: string

text \<open>The keyword arguments of \<open>as_retriever\<close> (lines 97-100).\<close>

record retriever_args =
  search_type :: string
  arg_k :: nat
  arg_fetch_k :: nat
  arg_lambda_mult :: rat

definition query_retriever_args :: retriever_args where
  "query_retriever_args =
     \<lparr>search_type = ''mmr'', arg_k = 8, arg_fetch_k = 20, arg_lambda_mult = 7 / 10\<rparr>"

text \<open>The arguments of \<open>chat.completions.create\<close> (lines 104-120); a message is (role, content).\<close>

record completion_request =
  model :: string
  messages :: "(string \<times> string) list"
  temperature :: rat
  max_tokens :: nat

text \<open>The response: the \<open>message.content\<close> of each entry of \<open>choices\<close>.\<close>

record completion_response =
  choices :: "string list"

text \<open>
  The collaborators the pipeline calls, as functions that return or raise: the retriever
  built from the vector store, and the remote completion endpoint.
\<close>

record 'vs services =
  get_relevant_documents :: "'vs \<Rightarrow> retriever_args \<Rightarrow> string option \<Rightarrow> exn + Document list"
  completions_create :: "string \<Rightarrow> completion_request \<Rightarrow> exn + completion_response"

text \<open>The fields \<open>__init__\<close> sets: the client (its API key), the embeddings (model, key), the store.\<close>

record 'vs CVQueryApp =
  client :: string
  embeddings :: "string \<times> string"
  vector_store :: "'vs"

text \<open>\<open>f"[{doc.metadata['section']}]\n{doc.page_content}"\<close>; the subscript raises KeyError.\<close>

definition context_block :: "Document \<Rightarrow> exn + string" where
  "context_block doc =
     (case metadata doc ''section'' of
        None \<Rightarrow> Inl (KeyError ''section'')
      | Some s \<Rightarrow> Inr (''['' @ s @ '']'' @ nl @ page_content doc))"

text \<open>The generator consumed by \<open>join\<close>: blocks in order, stopping at the first raise.\<close>

fun context_blocks :: "Document list \<Rightarrow> exn + string list" where
  "context_blocks [] = Inr []"
| "context_blocks (d # ds) =
     (case context_block d of
        Inl e \<Rightarrow> Inl e
      | Inr b \<Rightarrow> (case context_blocks ds of Inl e \<Rightarrow> Inl e | Inr bs \<Rightarrow> Inr (b # bs)))"

text \<open>Line 102: \<open>"\n".join(... for doc in docs)\<close>.\<close>

definition assemble_context :: "Document list \<Rightarrow> exn + string" where
  "assemble_context docs =
     (case context_blocks docs of Inl e \<Rightarrow> Inl e | Inr bs \<Rightarrow> Inr (py_join nl bs))"

definition system_prompt :: string where
  "system_prompt =
     ''You are a precise CV analysis assistant. Your task is to:'' @ nl @
     ''1. Only use information explicitly stated in the provided CV sections'' @ nl @
     ''2. Quote specific details when possible'' @ nl @
     ''3. If information is not found, clearly state '' @
       quoted ''Information not found in CV'' @ nl @
     ''4. Maintain chronological accuracy when discussing experience'' @ nl @
     ''5. Consider all provided sections before answering'' @ nl @
     ''6. Use relevant links of demos, where applicable, to emphasize skills''"

text \<open>
  The value of the input field: a string, or \<open>None\<close> while nothing has been typed into it.
  \<open>format_value\<close> is what an f-string makes of it.
\<close>

fun format_value :: "string option \<Rightarrow> string" where
  "format_value None = ''None''"
| "format_value (Some s) = s"

definition user_prompt :: "string \<Rightarrow> string option \<Rightarrow> string" where
  "user_prompt context question =
     ''Based on these CV sections:'' @ nl @ context @ nl @ nl @ ''Question: '' @
     format_value question"

definition make_request :: "string \<Rightarrow> string option \<Rightarrow> completion_request" where
  "make_request context question =
     \<lparr>model = ''gpt-4o-mini'',
      messages = [(''system'', system_prompt), (''user'', user_prompt context question)],
      temperature = 1 / 10,
      max_tokens = 2000\<rparr>"

text \<open>\<open>response.choices[0].message.content\<close>; the subscript raises IndexError.\<close>

definition first_choice :: "completion_response \<Rightarrow> exn + string" where
  "first_choice r =
     (case choices r of
        [] \<Rightarrow> Inl (IndexError ''list index out of range'')
      | c # _ \<Rightarrow> Inr c)"

text \<open>The body of the \<open>try\<close> block of \<open>query\<close> (lines 97-121).\<close>

definition query_try ::
  "'vs services \<Rightarrow> 'vs CVQueryApp \<Rightarrow> string option \<Rightarrow> exn + string" where
  "query_try sv self question =
     (case get_relevant_documents sv (vector_store self) query_retriever_args question of
        Inl e \<Rightarrow> Inl e
      | Inr docs \<Rightarrow>
          (case assemble_context docs of
             Inl e \<Rightarrow> Inl e
           | Inr context \<Rightarrow>
               (case completions_create sv (client self) (make_request context question) of
                  Inl e \<Rightarrow> Inl e
                | Inr response \<Rightarrow> first_choice response)))"

text \<open>
  \<open>query\<close> (lines 95-124): \<open>except Exception as e\<close> turns every \<open>Exception\<close> into the
  returned string; what is not an \<open>Exception\<close> propagates.
\<close>

definition query ::
  "'vs services \<Rightarrow> 'vs CVQueryApp \<Rightarrow> string option \<Rightarrow> exn + string" where
  "query sv self question =
     (case query_try sv self question of
        Inr answer \<Rightarrow> Inr answer
      | Inl e \<Rightarrow> if is_Exception e then Inr (''Error: '' @ str_exn e) else Inl e)"


section \<open>The chat callback: \<open>update_chat\<close>\<close>

text \<open>
  The names the module binds at top level, in the order of their first binding: the imports,
  \<open>logger\<close>, \<open>temp\<close> (bound by the \<open>with\<close> statement when the credentials variable is set),
  the three definitions, \<open>app\<close>, \<open>server\<close>, \<open>update_chat\<close> and \<open>port\<close> (bound under
  \<open>__main__\<close>). A global is either a \<open>CVQueryApp\<close> instance or some other object.
\<close>

datatype 'vs gval = App "'vs CVQueryApp" | Other

type_synonym 'vs namespace = "string \<rightharpoonup> 'vs gval"

definition module_names :: "string list" where
  "module_names =
     [''dash'', ''html'', ''dcc'', ''Input'', ''Output'', ''State'', ''os'', ''tempfile'',
      ''OpenAI'', ''OpenAIEmbeddings'', ''FAISS'', ''storage'', ''logging'', ''logger'',
      ''temp'', ''download_index_folder'', ''load_vector_store'', ''CVQueryApp'', ''app'',
      ''server'', ''update_chat'', ''port'']"

definition module_globals :: "'vs namespace" where
  "module_globals = map_of (map (\<lambda>n. (n, Other)) module_names)"

text \<open>A Dash component: \<open>html.Div(children, className=...)\<close>, or a string child.\<close>

datatype component = Div "component list" string | Str "string option"

text \<open>One entry of the \<open>chat-store\<close>: the dict with the keys \<open>user\<close> and \<open>bot\<close>.\<close>

record chat_entry =
  user :: "string option"
  bot :: string

text \<open>The two bubbles lines 356-363 add for one entry.\<close>

definition chat_bubbles :: "chat_entry \<Rightarrow> component list" where
  "chat_bubbles chat =
     [Div [Div [Str (user chat)] ''message-bubble user-bubble'']
          ''message-container user-message-container'',
      Div [Div [Str (Some (bot chat))] ''message-bubble bot-bubble'']
          ''message-container'']"

text \<open>The loop of lines 354-363: \<open>chat_messages\<close> extended entry by entry.\<close>

fun render_history :: "component list \<Rightarrow> chat_entry list \<Rightarrow> component list" where
  "render_history chat_messages [] = chat_messages"
| "render_history chat_messages (chat # rest) =
     render_history (chat_messages @ chat_bubbles chat) rest"

definition typing_indicator :: component where
  "typing_indicator =
     Div [Div [Div [] ''dot'', Div [] ''dot'', Div [] ''dot''] ''typing-indicator'']
         ''message-container''"

text \<open>A callback output: a new value for the property, or \<open>dash.no_update\<close>.\<close>

datatype 'a upd = NoUpdate | Upd 'a

type_synonym outputs =
  "component list upd \<times> chat_entry list upd \<times> string upd \<times> bool upd"

text \<open>
  \<open>update_chat\<close> (lines 345-381). \<open>triggered\<close> is the list of \<open>prop_id\<close>s of
  \<open>ctx.triggered\<close>; \<open>globals\<close> is the namespace in which the free name \<open>cv_app\<close> is looked
  up when the submit branch runs.
\<close>

definition update_chat ::
  "'vs services \<Rightarrow> 'vs namespace \<Rightarrow> string list \<Rightarrow> nat option \<Rightarrow> nat option \<Rightarrow>
   string option \<Rightarrow> chat_entry list \<Rightarrow> exn + outputs" where
  "update_chat sv globals triggered n_clicks n_intervals user_input chat_history =
     (case triggered of
        [] \<Rightarrow> Inr (NoUpdate, NoUpdate, NoUpdate, NoUpdate)
      | prop_id # _ \<Rightarrow>
          if str_contains ''submit-button'' prop_id then
            (case globals ''cv_app'' of
               None \<Rightarrow> Inl (NameError (''name '' @ quoted ''cv_app'' @ '' is not defined''))
             | Some Other \<Rightarrow>
                 Inl (AttributeError (''object has no attribute '' @ quoted ''query''))
             | Some (App cv_app) \<Rightarrow>
                 (case query sv cv_app user_input of
                    Inl e \<Rightarrow> Inl e
                  | Inr response \<Rightarrow>
                      let chat_history' = chat_history @ [\<lparr>user = user_input, bot = response\<rparr>];
                          chat_messages = render_history [] chat_history' @ [typing_indicator]
                      in Inr (Upd chat_messages, Upd chat_history', Upd [], Upd False)))
          else if str_contains ''fake-typing'' prop_id then
            Inr (NoUpdate, NoUpdate, NoUpdate, Upd True)
          else Inr (NoUpdate, NoUpdate, NoUpdate, Upd True))"

text \<open>
  The browser side of the callback, as the layout (lines 296-332) and the decorator
  (lines 334-344) wire it: the four output properties, with their initial values.
\<close>

record ui =
  chat_history_children :: "component list"
  chat_store :: "chat_entry list"
  user_input_value :: "string option"
  fake_typing_disabled :: bool

definition initial_ui :: ui where
  "initial_ui =
     \<lparr>chat_history_children = [], chat_store = [], user_input_value = None,
      fake_typing_disabled = True\<rparr>"

fun apply_upd :: "'a upd \<Rightarrow> 'a \<Rightarrow> 'a" where
  "apply_upd NoUpdate old = old"
| "apply_upd (Upd v) old = v"

fun map_upd :: "('a \<Rightarrow> 'b) \<Rightarrow> 'a upd \<Rightarrow> 'b upd" where
  "map_upd f NoUpdate = NoUpdate"
| "map_upd f (Upd v) = Upd (f v)"

text \<open>
  What a user does: type a question and press Send, or wait for the interval to fire (it
  fires only while it is enabled). A callback that raises updates no property.
\<close>

datatype event = Submit "string option" | Tick

definition run_callback ::
  "'vs services \<Rightarrow> 'vs namespace \<Rightarrow> string \<Rightarrow> ui \<Rightarrow> ui" where
  "run_callback sv globals prop_id s =
     (case update_chat sv globals [prop_id] None None (user_input_value s) (chat_store s) of
        Inl e \<Rightarrow> s
      | Inr (children, store, inp, disabled) \<Rightarrow>
          \<lparr>chat_history_children = apply_upd children (chat_history_children s),
           chat_store = apply_upd store (chat_store s),
           user_input_value = apply_upd (map_upd Some inp) (user_input_value s),
           fake_typing_disabled = apply_upd disabled (fake_typing_disabled s)\<rparr>)"

fun step :: "'vs services \<Rightarrow> 'vs namespace \<Rightarrow> ui \<Rightarrow> event \<Rightarrow> ui" where
  "step sv globals s (Submit q) =
     run_callback sv globals ''submit-button.n_clicks'' (s\<lparr>user_input_value := q\<rparr>)"
| "step sv globals s Tick =
     (if fake_typing_disabled s then s
      else run_callback sv globals ''fake-typing.n_intervals'' s)"

definition session :: "'vs services \<Rightarrow> 'vs namespace \<Rightarrow> event list \<Rightarrow> ui" where
  "session sv globals events = foldl (step sv globals) initial_ui events"

section \<open>Fetching and loading the index\<close>

text \<open>
  The local file system: a path holds a directory or a file with its bytes. The parents
  that \<open>os.makedirs\<close> creates on the way are not tracked, only the directory asked for.
\<close>

datatype node = Dir | File string

type_synonym filesystem = "string \<rightharpoonup> node"

text \<open>A listed object: its key, and what downloading it yields (the bytes, or a raise).\<close>

record blob =
  blob_name :: string
  blob_download :: "exn + string"

text \<open>\<open>os.path.basename\<close> and \<open>os.path.join\<close> (posixpath, two arguments).\<close>

definition basename :: "string \<Rightarrow> string" where
  "basename p = rev (takeWhile (\<lambda>c. c \<noteq> CHR ''/'') (rev p))"

definition path_join :: "string \<Rightarrow> string \<Rightarrow> string" where
  "path_join a b =
     (if startswith b ''/'' then b
      else if a = [] \<or> endswith a ''/'' then a @ b
      else a @ ''/'' @ b)"

text \<open>\<open>os.makedirs(path, exist_ok=True)\<close>.\<close>

definition makedirs :: "filesystem \<Rightarrow> string \<Rightarrow> exn + filesystem" where
  "makedirs fs path =
     (if path = [] then Inl (LibraryError ''FileNotFoundError'' ''No such file or directory'')
      else case fs path of
             Some (File _) \<Rightarrow> Inl (LibraryError ''FileExistsError'' ''File exists'')
           | _ \<Rightarrow> Inr (fs(path \<mapsto> Dir)))"

text \<open>\<open>blob.download_to_filename(local_path)\<close>: the file is created or truncated, then filled.\<close>

definition download_to_filename :: "filesystem \<Rightarrow> blob \<Rightarrow> string \<Rightarrow> exn + filesystem" where
  "download_to_filename fs b local_path =
     (case fs local_path of
        Some Dir \<Rightarrow> Inl (LibraryError ''IsADirectoryError'' ''Is a directory'')
      | _ \<Rightarrow> (case blob_download b of
                Inl e \<Rightarrow> Inl e
              | Inr bytes \<Rightarrow> Inr (fs(local_path \<mapsto> File bytes))))"

text \<open>The loop of lines 39-49 over the listed blobs.\<close>

fun download_blobs :: "filesystem \<Rightarrow> string \<Rightarrow> blob list \<Rightarrow> exn + filesystem" where
  "download_blobs fs destination_dir [] = Inr fs"
| "download_blobs fs destination_dir (b # blobs) =
     (if endswith (blob_name b) ''/'' then download_blobs fs destination_dir blobs
      else
        let local_path = path_join destination_dir (basename (blob_name b))
        in case download_to_filename fs b local_path of
             Inl e \<Rightarrow> Inl e
           | Inr fs' \<Rightarrow> download_blobs fs' destination_dir blobs)"

text \<open>
  The storage service: \<open>storage.Client().bucket(bucket_name).list_blobs(prefix=...)\<close>, the
  listing or the raise of the client (no credentials, unreachable bucket).
\<close>

type_synonym storage_service = "string \<Rightarrow> string \<Rightarrow> exn + blob list"

text \<open>
  \<open>download_index_folder\<close> (lines 28-49). The client is built before the directory is made
  and the listing is read after it; a raise of either ends the call.
\<close>

definition download_index_folder ::
  "storage_service \<Rightarrow> filesystem \<Rightarrow> string \<Rightarrow> string \<Rightarrow> string \<Rightarrow> exn + filesystem" where
  "download_index_folder list_blobs fs bucket_name source_folder destination_dir =
     (case list_blobs bucket_name source_folder of
        Inl e \<Rightarrow> Inl e
      | Inr blobs \<Rightarrow>
          (case makedirs fs destination_dir of
             Inl e \<Rightarrow> Inl e
           | Inr fs' \<Rightarrow> download_blobs fs' destination_dir blobs))"

text \<open>\<open>os.getenv(key)\<close> is the map itself; \<open>os.getenv(key, default)\<close>:\<close>

type_synonym environ = "string \<rightharpoonup> string"

definition getenv_default :: "environ \<Rightarrow> string \<Rightarrow> string \<Rightarrow> string" where
  "getenv_default env key dflt = (case env key of None \<Rightarrow> dflt | Some v \<Rightarrow> v)"

text \<open>\<open>FAISS.load_local(folder, embeddings, ...)\<close>: the store read from the files, or a raise.\<close>

type_synonym 'vs faiss_loader = "filesystem \<Rightarrow> string \<Rightarrow> string \<times> string \<Rightarrow> exn + 'vs"

text \<open>\<open>load_vector_store\<close> (lines 51-73); the \<open>except\<close> clause re-raises what it caught.\<close>

definition load_vector_store ::
  "storage_service \<Rightarrow> 'vs faiss_loader \<Rightarrow> environ \<Rightarrow> filesystem \<Rightarrow> string \<times> string \<Rightarrow>
   exn + ('vs \<times> filesystem)" where
  "load_vector_store list_blobs load_local env fs emb =
     (let bucket_name = getenv_default env ''GCS_BUCKET_NAME'' ''ragsd-resume-bucket'';
          index_path = getenv_default env ''GCS_INDEX_PATH''
                         ''faiss_indexes/cv_index_text-embedding-3-large'';
          destination_folder = ''/tmp/faiss_index''
      in case download_index_folder list_blobs fs bucket_name index_path destination_folder of
           Inl e \<Rightarrow> Inl e
         | Inr fs' \<Rightarrow>
             (case load_local fs' destination_folder emb of
                Inl error \<Rightarrow> Inl error
              | Inr store \<Rightarrow> Inr (store, fs')))"

text \<open>
  \<open>CVQueryApp.__init__\<close> (lines 76-93): \<open>not api_key\<close> holds for an unset and for an empty
  variable; the \<open>except\<close> clause logs and re-raises.
\<close>

definition CVQueryApp_init ::
  "storage_service \<Rightarrow> 'vs faiss_loader \<Rightarrow> environ \<Rightarrow> filesystem \<Rightarrow>
   exn + ('vs CVQueryApp \<times> filesystem)" where
  "CVQueryApp_init list_blobs load_local env fs =
     (case env ''OPENAI_API_KEY'' of
        None \<Rightarrow> Inl (ValueError ''OPENAI_API_KEY not found!'')
      | Some api_key \<Rightarrow>
          if api_key = [] then Inl (ValueError ''OPENAI_API_KEY not found!'')
          else
            (let emb = (''text-embedding-3-large'', api_key)
             in (case load_vector_store list_blobs load_local env fs emb of
                   Inl e \<Rightarrow> Inl e
                 | Inr (store, fs') \<Rightarrow>
                     Inr (\<lparr>client = api_key, embeddings = emb, vector_store = store\<rparr>,
                          fs'))))"

section \<open>Running the module\<close>

text \<open>
  What executing app.py leaves behind: the environment, the file system, the module's
  globals, and the address the HTTP server listens on once \<open>run_server\<close> has been called.
\<close>

record 'vs process =
  proc_environ :: environ
  proc_files :: filesystem
  proc_globals :: "'vs namespace"
  listening :: "(string \<times> int) option"

text \<open>
  Lines 16-23: the credentials are written to a fresh temporary file, whose name the
  operating system picks (\<open>temp_name\<close>), and the variable pointing to it is set.
\<close>

definition write_credentials :: "string \<Rightarrow> environ \<Rightarrow> filesystem \<Rightarrow> environ \<times> filesystem" where
  "write_credentials temp_name env fs =
     (case env ''GOOGLE_CREDENTIALS_JSON'' of
        None \<Rightarrow> (env, fs)
      | Some json \<Rightarrow>
          if json = [] then (env, fs)
          else (env(''GOOGLE_APPLICATION_CREDENTIALS'' \<mapsto> temp_name),
                fs(temp_name \<mapsto> File json)))"

text \<open>
  The whole module, top to bottom (lines 1-385). \<open>py_int\<close> is the built-in \<open>int\<close> on
  strings; \<open>name\<close> is \<open>__name__\<close>. Between the credentials and the last two lines the module
  only binds names: the definitions, \<open>app\<close>, \<open>server\<close>, the layout and the callback.
\<close>

definition run_module ::
  "(string \<Rightarrow> exn + int) \<Rightarrow> string \<Rightarrow> string \<Rightarrow> environ \<Rightarrow> filesystem \<Rightarrow> exn + 'vs process" where
  "run_module py_int temp_name name env fs =
     (let (env', fs') = write_credentials temp_name env fs;
          loaded = \<lparr>proc_environ = env', proc_files = fs', proc_globals = module_globals,
                    listening = None\<rparr>
      in if name = ''__main__'' then
           (case (case env' ''PORT'' of None \<Rightarrow> Inr 7860 | Some v \<Rightarrow> py_int v) of
              Inl e \<Rightarrow> Inl e
            | Inr port \<Rightarrow> Inr (loaded\<lparr>listening := Some (''0.0.0.0'', port)\<rparr>))
         else Inr loaded)"

section \<open>The retriever\<close>

text \<open>
  Modelled from the spec: the retriever that \<open>as_retriever(search_type="mmr", ...)\<close> builds
  is code of the vector-store library, absent from app.py. The definitions of this section
  follow section 4.3 of the specification, step by step; app.py contributes the arguments
  \<open>query_retriever_args\<close>. An index is the list of its chunks, each with its embedding;
  \<open>distance\<close> and \<open>similarity\<close> compare two embeddings.
\<close>

type_synonym 'v vector_index = "(Document \<times> 'v) list"

text \<open>Modelled from the spec: step 2, the \<open>fetch_k\<close> nearest chunks by vector distance,
  nearest first.\<close>

definition nearest ::
  "('v \<Rightarrow> 'v \<Rightarrow> rat) \<Rightarrow> 'v vector_index \<Rightarrow> 'v \<Rightarrow> nat \<Rightarrow> (Document \<times> 'v) list" where
  "nearest distance index qv n = take n (sort_key (\<lambda>c. distance qv (snd c)) index)"

text \<open>Modelled from the spec: the largest similarity of an embedding to the chunks already
  selected (0 when none is).\<close>

fun max_similarity :: "('v \<Rightarrow> 'v \<Rightarrow> rat) \<Rightarrow> 'v \<Rightarrow> (Document \<times> 'v) list \<Rightarrow> rat" where
  "max_similarity similarity v [] = 0"
| "max_similarity similarity v [s] = similarity v (snd s)"
| "max_similarity similarity v (s # t # ss) =
     max (similarity v (snd s)) (max_similarity similarity v (t # ss))"

text \<open>
  Modelled from the spec: step 3, the score of a candidate,
  \<open>diversity * relevance_to_query - (1 - diversity) * max_similarity_to_already_selected\<close>.
\<close>

definition mmr_score ::
  "('v \<Rightarrow> 'v \<Rightarrow> rat) \<Rightarrow> rat \<Rightarrow> 'v \<Rightarrow> (Document \<times> 'v) list \<Rightarrow> Document \<times> 'v \<Rightarrow> rat" where
  "mmr_score similarity diversity qv selected c =
     diversity * similarity qv (snd c)
     - (1 - diversity) * max_similarity similarity (snd c) selected"

text \<open>
  Modelled from the spec: the candidate of \<open>x # xs\<close> with the largest score (the earliest
  such), and the pool without it.
\<close>

fun take_best :: "('a \<Rightarrow> rat) \<Rightarrow> 'a \<Rightarrow> 'a list \<Rightarrow> 'a \<times> 'a list" where
  "take_best score x [] = (x, [])"
| "take_best score x (y # ys) =
     (let (b, rest) = take_best score y ys
      in if score b \<le> score x then (x, y # ys) else (b, x # rest))"

text \<open>Modelled from the spec: step 3, the iteration, up to \<open>n\<close> selections, each removed from
  the pool.\<close>

fun mmr_select ::
  "('v \<Rightarrow> 'v \<Rightarrow> rat) \<Rightarrow> rat \<Rightarrow> 'v \<Rightarrow> nat \<Rightarrow> (Document \<times> 'v) list \<Rightarrow>
   (Document \<times> 'v) list \<Rightarrow> (Document \<times> 'v) list" where
  "mmr_select similarity diversity qv 0 pool selected = []"
| "mmr_select similarity diversity qv (Suc n) [] selected = []"
| "mmr_select similarity diversity qv (Suc n) (c # pool) selected =
     (let (b, rest) = take_best (mmr_score similarity diversity qv selected) c pool
      in b # mmr_select similarity diversity qv n rest (selected @ [b]))"

text \<open>Modelled from the spec: \<open>retrieve(index, query, k, fetch_k, diversity)\<close>, from the
  embedded query on.\<close>

definition retrieve ::
  "('v \<Rightarrow> 'v \<Rightarrow> rat) \<Rightarrow> ('v \<Rightarrow> 'v \<Rightarrow> rat) \<Rightarrow> 'v vector_index \<Rightarrow> 'v \<Rightarrow> nat \<Rightarrow> nat \<Rightarrow> rat \<Rightarrow>
   Document list" where
  "retrieve distance similarity index qv n_k n_fetch diversity =
     map fst (mmr_select similarity diversity qv n_k (nearest distance index qv n_fetch) [])"

text \<open>
  Modelled from the spec: step 1 and the call app.py makes; the query is embedded by the remote embedding model
  (\<open>embed_query\<close>, which may raise) and retrieval runs with the arguments it is given.
\<close>

definition mmr_retriever ::
  "(string option \<Rightarrow> exn + 'v) \<Rightarrow> ('v \<Rightarrow> 'v \<Rightarrow> rat) \<Rightarrow> ('v \<Rightarrow> 'v \<Rightarrow> rat) \<Rightarrow>
   'v vector_index \<Rightarrow> retriever_args \<Rightarrow> string option \<Rightarrow> exn + Document list" where
  "mmr_retriever embed_query distance similarity index args question =
     (case embed_query question of
        Inl e \<Rightarrow> Inl e
      | Inr qv \<Rightarrow>
          Inr (retrieve distance similarity index qv (arg_k args) (arg_fetch_k args)
                 (arg_lambda_mult args)))"

section \<open>Fixtures and the specification's own terms\<close>

text \<open>
  Stand-ins for the collaborators, for running the definitions on concrete inputs: a
  retriever that returns one chunk, a completion endpoint that answers with the user
  message it was sent, and one that raises as a rate-limited endpoint does.
\<close>

definition example_docs :: "Document list" where
  "example_docs = [\<lparr>metadata = [''section'' \<mapsto> ''Experience''], page_content = ''X''\<rparr>]"

definition example_services :: "unit services" where
  "example_services =
     \<lparr>get_relevant_documents = (\<lambda>vs args q. Inr example_docs),
      completions_create = (\<lambda>key req. Inr \<lparr>choices = [snd (last (messages req))]\<rparr>)\<rparr>"

definition failing_services :: "unit services" where
  "failing_services =
     \<lparr>get_relevant_documents = (\<lambda>vs args q. Inr example_docs),
      completions_create =
        (\<lambda>key req. Inl (LibraryError ''RateLimitError'' ''rate limit exceeded''))\<rparr>"

definition example_app :: "unit CVQueryApp" where
  "example_app =
     \<lparr>client = ''sk-test'', embeddings = (''text-embedding-3-large'', ''sk-test''),
      vector_store = ()\<rparr>"

text \<open>The module's namespace with \<open>cv_app\<close> bound to an instance in addition.\<close>

definition example_globals :: "unit namespace" where
  "example_globals = module_globals(''cv_app'' \<mapsto> App example_app)"

text \<open>A chunk as the specification describes it, and the block it asks for.\<close>

record chunk =
  chunk_section :: string
  chunk_text :: string

definition chunk_of :: "Document \<Rightarrow> chunk \<Rightarrow> bool" where
  "chunk_of doc c = (metadata doc ''section'' = Some (chunk_section c) \<and> page_content doc = chunk_text c)"

definition spec_block :: "chunk \<Rightarrow> string" where
  "spec_block c = ''['' @ chunk_section c @ '']'' @ [CHR 0x0A] @ chunk_text c"

text \<open>
  The Index Fetcher as the specification words it: the objects that remain after the
  entries ending in a path separator are skipped, the local path \<open>destination/basename(key)\<close>
  of an object, and the object that is written last to a given local path.
\<close>

definition remaining :: "blob list \<Rightarrow> blob list" where
  "remaining blobs = filter (\<lambda>b. \<not> endswith (blob_name b) ''/'') blobs"

definition spec_local_path :: "string \<Rightarrow> blob \<Rightarrow> string" where
  "spec_local_path destination b = path_join destination (basename (blob_name b))"

definition spec_last_write :: "string \<Rightarrow> blob list \<Rightarrow> string \<Rightarrow> blob option" where
  "spec_last_write destination blobs p =
     (case rev (filter (\<lambda>b. spec_local_path destination b = p) (remaining blobs)) of
        [] \<Rightarrow> None
      | b # _ \<Rightarrow> Some b)"

text \<open>
  A remote folder for running the fetcher: a folder placeholder, two objects with the same
  basename in different subfolders, and one more object.
\<close>

definition example_listing :: "blob list" where
  "example_listing =
     [\<lparr>blob_name = ''i/'', blob_download = Inr []\<rparr>,
      \<lparr>blob_name = ''i/a/x'', blob_download = Inr ''AAA''\<rparr>,
      \<lparr>blob_name = ''i/b/x'', blob_download = Inr ''BBB''\<rparr>,
      \<lparr>blob_name = ''i/y'', blob_download = Inr ''YYY''\<rparr>]"

definition example_storage :: storage_service where
  "example_storage bucket_name prefix = Inr example_listing"

text \<open>The local files the example run leaves behind.\<close>

definition example_fetched :: filesystem where
  "example_fetched = [''d'' \<mapsto> Dir, ''d/x'' \<mapsto> File ''BBB'', ''d/y'' \<mapsto> File ''YYY'']"

text \<open>
  A three-chunk index with one-dimensional embeddings, for running the retriever: distance is
  the absolute difference, similarity its negation, and every query embeds to 0.
\<close>

definition example_index :: "rat vector_index" where
  "example_index =
     [(\<lparr>metadata = [''section'' \<mapsto> ''Projects''], page_content = ''Z''\<rparr>, 5),
      (\<lparr>metadata = [''section'' \<mapsto> ''Experience''], page_content = ''X''\<rparr>, 1),
      (\<lparr>metadata = [''section'' \<mapsto> ''Skills''], page_content = ''Y''\<rparr>, 2)]"

definition example_embed :: "string option \<Rightarrow> exn + rat" where
  "example_embed question = Inr 0"

definition example_distance :: "rat \<Rightarrow> rat \<Rightarrow> rat" where
  "example_distance a b = \<bar>a - b\<bar>"

definition example_similarity :: "rat \<Rightarrow> rat \<Rightarrow> rat" where
  "example_similarity a b = - \<bar>a - b\<bar>"

text \<open>
  Context assembly as the specification words it: the first block, and every later block
  after a newline.
\<close>

definition spec_assemble :: "chunk list \<Rightarrow> string" where
  "spec_assemble cs =
     (case cs of
        [] \<Rightarrow> []
      | c # rest \<Rightarrow> spec_block c @ concat (map (\<lambda>c'. [CHR 0x0A] @ spec_block c') rest))"

text \<open>
  The pipeline over the three-chunk index: the retriever of the specification behind
  \<open>get_relevant_documents\<close>, a completion endpoint that answers with the user message it was
  sent, and an instance whose vector store is that index.
\<close>

definition indexed_services :: "rat vector_index services" where
  "indexed_services =
     \<lparr>get_relevant_documents = mmr_retriever example_embed example_distance example_similarity,
      completions_create = (\<lambda>key req. Inr \<lparr>choices = [snd (last (messages req))]\<rparr>)\<rparr>"

definition indexed_app :: "rat vector_index CVQueryApp" where
  "indexed_app =
     \<lparr>client = ''sk-test'', embeddings = (''text-embedding-3-large'', ''sk-test''),
      vector_store = example_index\<rparr>"

section \<open>Properties of the query pipeline and of the callback\<close>

lemma prop_id_evals:
  "str_contains ''submit-button'' ''submit-button.n_clicks''"
  "\<not> str_contains ''submit-button'' ''fake-typing.n_intervals''"
  "str_contains ''fake-typing'' ''fake-typing.n_intervals''"
  by simp_all

lemma module_globals_cv_app: "module_globals ''cv_app'' = None"
  by (simp add: module_globals_def module_names_def)

lemma example_globals_cv_app: "example_globals ''cv_app'' = Some (App example_app)"
  by (simp add: example_globals_def)

lemma render_history_concat:
  "render_history acc h = acc @ concat (map chat_bubbles h)"
  by (induction acc h rule: render_history.induct) simp_all

lemma update_chat_submit_unbound:
  "str_contains ''submit-button'' prop_id \<Longrightarrow> globals ''cv_app'' = None \<Longrightarrow>
   update_chat sv globals (prop_id # rest) n_clicks n_intervals user_input chat_history =
     Inl (NameError (''name '' @ quoted ''cv_app'' @ '' is not defined''))"
  by (simp add: update_chat_def)

lemma update_chat_submit_bound:
  "str_contains ''submit-button'' prop_id \<Longrightarrow> globals ''cv_app'' = Some (App a) \<Longrightarrow>
   query sv a user_input = Inr response \<Longrightarrow>
   update_chat sv globals (prop_id # rest) n_clicks n_intervals user_input chat_history =
     Inr (Upd (render_history [] (chat_history @ [\<lparr>user = user_input, bot = response\<rparr>])
               @ [typing_indicator]),
          Upd (chat_history @ [\<lparr>user = user_input, bot = response\<rparr>]), Upd [], Upd False)"
  by (simp add: update_chat_def Let_def)

lemma update_chat_not_submit:
  "\<not> str_contains ''submit-button'' prop_id \<Longrightarrow>
   update_chat sv globals (prop_id # rest) n_clicks n_intervals user_input chat_history =
     Inr (NoUpdate, NoUpdate, NoUpdate, Upd True)"
  by (simp add: update_chat_def)

lemma step_submit_bound:
  "globals ''cv_app'' = Some (App a) \<Longrightarrow> query sv a q = Inr response \<Longrightarrow>
   step sv globals s (Submit q) =
     \<lparr>chat_history_children =
        render_history [] (chat_store s @ [\<lparr>user = q, bot = response\<rparr>]) @ [typing_indicator],
      chat_store = chat_store s @ [\<lparr>user = q, bot = response\<rparr>],
      user_input_value = Some [],
      fake_typing_disabled = False\<rparr>"
  by (simp add: run_callback_def update_chat_submit_bound [OF prop_id_evals(1)])

lemma step_submit_store_prefix:
  "take (length (chat_store s)) (chat_store (step sv globals s (Submit q))) = chat_store s"
  by (auto simp: run_callback_def update_chat_def Let_def
        split: option.splits gval.splits sum.splits)

lemma query_returns:
  "query_try sv self question = Inl e \<Longrightarrow> is_Exception e \<Longrightarrow>
   query sv self question = Inr (''Error: '' @ str_exn e)"
  by (simp add: query_def)

lemma failing_query_try:
  "query_try failing_services example_app (Some ''Q1'') =
     Inl (LibraryError ''RateLimitError'' ''rate limit exceeded'')"
  by (simp add: query_try_def failing_services_def example_docs_def assemble_context_def
        context_block_def)

lemma example_query:
  "query example_services example_app (Some q) =
     Inr (''Based on these CV sections:'' @ nl @ ''[Experience]'' @ nl @ ''X'' @ nl @ nl @
          ''Question: '' @ q)"
  by (simp add: query_def query_try_def example_services_def example_docs_def
        assemble_context_def context_block_def make_request_def user_prompt_def
        first_choice_def)

lemma context_blocks_chunks:
  "list_all2 chunk_of docs cs \<Longrightarrow> context_blocks docs = Inr (map spec_block cs)"
  by (induction docs cs rule: list_all2_induct)
     (simp_all add: context_block_def chunk_of_def spec_block_def nl_def)

text \<open>
  Claim C1. When any step of the pipeline inside \<open>query\<close> (retrieval, context assembly, the
  completion call, reading its response) raises an \<open>Exception\<close> \<open>e\<close>, \<open>query\<close> does not
  raise: it returns the string \<open>Error: \<close> followed by \<open>str(e)\<close>. The pairs already in the
  chat store are kept by the turn, in whatever namespace the callback runs; where \<open>cv_app\<close>
  is bound to the instance, the failed turn appends the question with the error string, and
  the next question is answered and appended after it.
\<close>

theorem query_error_isolation:
  assumes fails: "query_try sv self question = Inl e" and exc: "is_Exception e"
  shows "query sv self question = Inr (''Error: '' @ str_exn e)
    \<and> (\<forall>globals s. take (length (chat_store s))
                      (chat_store (step sv globals s (Submit question))) = chat_store s)
    \<and> (\<forall>globals s. globals ''cv_app'' = Some (App self) \<longrightarrow>
          chat_store (step sv globals s (Submit question)) =
            chat_store s @ [\<lparr>user = question, bot = ''Error: '' @ str_exn e\<rparr>])
    \<and> (\<forall>globals s next_question answer.
          globals ''cv_app'' = Some (App self) \<and> query sv self next_question = Inr answer \<longrightarrow>
          chat_store (step sv globals (step sv globals s (Submit question))
                        (Submit next_question)) =
            chat_store s @ [\<lparr>user = question, bot = ''Error: '' @ str_exn e\<rparr>,
                            \<lparr>user = next_question, bot = answer\<rparr>])"
proof -
  have q: "query sv self question = Inr (''Error: '' @ str_exn e)"
    using fails exc by (rule query_returns)
  show ?thesis
  proof (intro conjI allI impI)
    show "query sv self question = Inr (''Error: '' @ str_exn e)" by (rule q)
  next
    fix globals :: "'a namespace" and s
    show "take (length (chat_store s)) (chat_store (step sv globals s (Submit question)))
          = chat_store s"
      by (rule step_submit_store_prefix)
  next
    fix globals :: "'a namespace" and s
    assume g: "globals ''cv_app'' = Some (App self)"
    show "chat_store (step sv globals s (Submit question)) =
            chat_store s @ [\<lparr>user = question, bot = ''Error: '' @ str_exn e\<rparr>]"
      by (simp only: step_submit_bound [where globals = globals, OF g q] ui.simps)
  next
    fix globals :: "'a namespace" and s next_question answer
    assume a: "globals ''cv_app'' = Some (App self) \<and> query sv self next_question = Inr answer"
    then have g: "globals ''cv_app'' = Some (App self)"
      and n: "query sv self next_question = Inr answer" by simp_all
    show "chat_store (step sv globals (step sv globals s (Submit question))
                        (Submit next_question)) =
            chat_store s @ [\<lparr>user = question, bot = ''Error: '' @ str_exn e\<rparr>,
                            \<lparr>user = next_question, bot = answer\<rparr>]"
      by (simp only: step_submit_bound [where globals = globals, OF g q] step_submit_bound [where globals = globals, OF g n] ui.simps
            append_assoc append_Cons append_Nil)
  qed
qed

theorem query_error_isolation_witness:
  "query_try failing_services example_app (Some ''Q1'') =
     Inl (LibraryError ''RateLimitError'' ''rate limit exceeded'')
   \<and> is_Exception (LibraryError ''RateLimitError'' ''rate limit exceeded'')
   \<and> query failing_services example_app (Some ''Q1'') = Inr ''Error: rate limit exceeded''
   \<and> example_globals ''cv_app'' = Some (App example_app)
   \<and> chat_store (step failing_services example_globals
        \<lparr>chat_history_children = [], chat_store = [\<lparr>user = Some ''Q0'', bot = ''A0''\<rparr>],
         user_input_value = None, fake_typing_disabled = True\<rparr> (Submit (Some ''Q1''))) =
       [\<lparr>user = Some ''Q0'', bot = ''A0''\<rparr>,
        \<lparr>user = Some ''Q1'', bot = ''Error: rate limit exceeded''\<rparr>]"
proof -
  have e: "is_Exception (LibraryError ''RateLimitError'' ''rate limit exceeded'')" by simp
  note r = query_error_isolation [OF failing_query_try e]
  from r have q: "query failing_services example_app (Some ''Q1'') =
      Inr (''Error: '' @ str_exn (LibraryError ''RateLimitError'' ''rate limit exceeded''))"
    by (rule conjunct1)
  from r have "\<forall>globals s. globals ''cv_app'' = Some (App example_app) \<longrightarrow>
          chat_store (step failing_services globals s (Submit (Some ''Q1''))) =
            chat_store s @ [\<lparr>user = Some ''Q1'', bot = ''Error: '' @
               str_exn (LibraryError ''RateLimitError'' ''rate limit exceeded'')\<rparr>]"
    by (rule conjunct1 [OF conjunct2 [OF conjunct2]])
  from this [rule_format, of example_globals
      "\<lparr>chat_history_children = [], chat_store = [\<lparr>user = Some ''Q0'', bot = ''A0''\<rparr>],
        user_input_value = None, fake_typing_disabled = True\<rparr>",
      OF example_globals_cv_app] q failing_query_try e example_globals_cv_app
  show ?thesis by (simp del: step.simps)
qed

text \<open>
  Claim C5. The name \<open>cv_app\<close> is not among the names the module binds. In the module's
  namespace, every invocation of \<open>update_chat\<close> triggered by the submit button therefore
  raises NameError out of the callback (the \<open>try\<close> is inside \<open>query\<close>, which is never
  reached), and a submitted question changes neither the chat store nor the transcript.
\<close>

theorem cv_app_never_bound:
  "''cv_app'' \<notin> set module_names
   \<and> (module_globals :: 'vs namespace) ''cv_app'' = None
   \<and> (\<forall>(sv :: 'vs services) prop_id rest n_clicks n_intervals user_input chat_history.
        str_contains ''submit-button'' prop_id \<longrightarrow>
        update_chat sv module_globals (prop_id # rest) n_clicks n_intervals user_input
          chat_history =
          Inl (NameError (''name '' @ quoted ''cv_app'' @ '' is not defined'')))
   \<and> (\<forall>(sv :: 'vs services) s q.
        step sv module_globals s (Submit q) = s\<lparr>user_input_value := q\<rparr>)"
  by (simp add: module_globals_cv_app update_chat_submit_unbound run_callback_def
        prop_id_evals) (simp add: module_names_def)

theorem cv_app_never_bound_witness:
  "str_contains ''submit-button'' ''submit-button.n_clicks''
   \<and> update_chat example_services module_globals [''submit-button.n_clicks''] (Some 1) None
        (Some ''Current role and company?'') [] =
        Inl (NameError (''name '' @ quoted ''cv_app'' @ '' is not defined''))"
  using cv_app_never_bound [where 'vs = unit] by (simp del: str_contains.simps startswith.simps) simp

lemma py_join_Cons: "py_join sep (p # ps) = p @ concat (map (\<lambda>q. sep @ q) ps)"
  by (induction ps arbitrary: p) simp_all

lemma assemble_context_chunks:
  "list_all2 chunk_of docs cs \<Longrightarrow> assemble_context docs = Inr (spec_assemble cs)"
proof -
  assume a: "list_all2 chunk_of docs cs"
  then have b: "context_blocks docs = Inr (map spec_block cs)" by (rule context_blocks_chunks)
  show ?thesis
  proof (cases cs)
    case Nil
    with b show ?thesis by (simp add: assemble_context_def spec_assemble_def)
  next
    case (Cons c rest)
    with b show ?thesis
      by (simp add: assemble_context_def spec_assemble_def py_join_Cons nl_def comp_def)
  qed
qed

text \<open>
  Claim C6. Context assembly is a function of the retrieved chunks alone. The empty sequence
  gives the empty string; the single chunk with section \<open>Experience\<close> and text \<open>X\<close> gives
  \<open>[Experience]\<close>, a newline and \<open>X\<close>; the chunks \<open>Experience\<close>/\<open>X\<close> and \<open>Skills\<close>/\<open>Y\<close>
  give the two blocks separated by exactly one newline. In general the result is the first
  chunk's block \<open>[section]\<close>, newline, text, followed for every later chunk, in order, by a
  newline and that chunk's block: each further chunk adds its block and one newline in front
  of the rest.
\<close>

theorem assemble_context_spec:
  "assemble_context [] = Inr []
   \<and> (\<forall>doc. chunk_of doc \<lparr>chunk_section = ''Experience'', chunk_text = ''X''\<rparr> \<longrightarrow>
         assemble_context [doc] = Inr (''[Experience]'' @ [CHR 0x0A] @ ''X''))
   \<and> (\<forall>d1 d2. chunk_of d1 \<lparr>chunk_section = ''Experience'', chunk_text = ''X''\<rparr> \<and>
         chunk_of d2 \<lparr>chunk_section = ''Skills'', chunk_text = ''Y''\<rparr> \<longrightarrow>
         assemble_context [d1, d2] =
           Inr (''[Experience]'' @ [CHR 0x0A] @ ''X'' @ [CHR 0x0A] @
                ''[Skills]'' @ [CHR 0x0A] @ ''Y''))
   \<and> (\<forall>docs cs. list_all2 chunk_of docs cs \<longrightarrow>
         assemble_context docs = Inr (spec_assemble cs))
   \<and> (\<forall>c c' cs. spec_assemble (c # c' # cs) =
         ''['' @ chunk_section c @ '']'' @ [CHR 0x0A] @ chunk_text c @ [CHR 0x0A] @
         spec_assemble (c' # cs))"
proof (intro conjI allI impI)
  show "assemble_context [] = Inr []" by (simp add: assemble_context_def)
next
  fix docs cs assume "list_all2 chunk_of docs cs"
  then show "assemble_context docs = Inr (spec_assemble cs)" by (rule assemble_context_chunks)
next
  fix doc assume "chunk_of doc \<lparr>chunk_section = ''Experience'', chunk_text = ''X''\<rparr>"
  then have "list_all2 chunk_of [doc] [\<lparr>chunk_section = ''Experience'', chunk_text = ''X''\<rparr>]"
    by simp
  from assemble_context_chunks [OF this]
  show "assemble_context [doc] = Inr (''[Experience]'' @ [CHR 0x0A] @ ''X'')"
    by (simp add: spec_assemble_def spec_block_def nl_def)
next
  fix d1 d2
  assume "chunk_of d1 \<lparr>chunk_section = ''Experience'', chunk_text = ''X''\<rparr> \<and>
         chunk_of d2 \<lparr>chunk_section = ''Skills'', chunk_text = ''Y''\<rparr>"
  then have "list_all2 chunk_of [d1, d2]
      [\<lparr>chunk_section = ''Experience'', chunk_text = ''X''\<rparr>,
       \<lparr>chunk_section = ''Skills'', chunk_text = ''Y''\<rparr>]"
    by simp
  from assemble_context_chunks [OF this]
  show "assemble_context [d1, d2] =
           Inr (''[Experience]'' @ [CHR 0x0A] @ ''X'' @ [CHR 0x0A] @
                ''[Skills]'' @ [CHR 0x0A] @ ''Y'')"
    by (simp add: spec_assemble_def spec_block_def nl_def)
next
  fix c c' cs
  show "spec_assemble (c # c' # cs) =
         ''['' @ chunk_section c @ '']'' @ [CHR 0x0A] @ chunk_text c @ [CHR 0x0A] @
         spec_assemble (c' # cs)"
    by (simp add: spec_assemble_def spec_block_def nl_def)
qed

theorem assemble_context_spec_witness:
  "chunk_of \<lparr>metadata = [''section'' \<mapsto> ''Experience''], page_content = ''X''\<rparr>
      \<lparr>chunk_section = ''Experience'', chunk_text = ''X''\<rparr>
   \<and> chunk_of \<lparr>metadata = [''section'' \<mapsto> ''Skills''], page_content = ''Y''\<rparr>
      \<lparr>chunk_section = ''Skills'', chunk_text = ''Y''\<rparr>
   \<and> assemble_context [\<lparr>metadata = [''section'' \<mapsto> ''Experience''], page_content = ''X''\<rparr>] =
       Inr (''[Experience]'' @ [CHR 0x0A] @ ''X'')
   \<and> assemble_context [\<lparr>metadata = [''section'' \<mapsto> ''Experience''], page_content = ''X''\<rparr>,
                       \<lparr>metadata = [''section'' \<mapsto> ''Skills''], page_content = ''Y''\<rparr>] =
       Inr (''[Experience]'' @ [CHR 0x0A] @ ''X'' @ [CHR 0x0A] @ ''[Skills]'' @ [CHR 0x0A] @ ''Y'')"
proof -
  have c1: "chunk_of \<lparr>metadata = [''section'' \<mapsto> ''Experience''], page_content = ''X''\<rparr>
      \<lparr>chunk_section = ''Experience'', chunk_text = ''X''\<rparr>"
    by (simp add: chunk_of_def)
  have c2: "chunk_of \<lparr>metadata = [''section'' \<mapsto> ''Skills''], page_content = ''Y''\<rparr>
      \<lparr>chunk_section = ''Skills'', chunk_text = ''Y''\<rparr>"
    by (simp add: chunk_of_def)
  from assemble_context_spec c1 c2 show ?thesis by blast
qed
section \<open>Sessions, start-up and the typing indicator\<close>

lemma step_submit_unbound:
  "globals ''cv_app'' = None \<Longrightarrow> step sv globals s (Submit q) = s\<lparr>user_input_value := q\<rparr>"
  by (simp add: run_callback_def update_chat_submit_unbound [OF prop_id_evals(1)])

lemma example_step:
  "step example_services example_globals s (Submit (Some q)) =
     \<lparr>chat_history_children =
        render_history []
          (chat_store s @ [\<lparr>user = Some q, bot = ''Based on these CV sections:'' @ nl @
             ''[Experience]'' @ nl @ ''X'' @ nl @ nl @ ''Question: '' @ q\<rparr>]) @ [typing_indicator],
      chat_store = chat_store s @ [\<lparr>user = Some q, bot = ''Based on these CV sections:'' @ nl @
             ''[Experience]'' @ nl @ ''X'' @ nl @ nl @ ''Question: '' @ q\<rparr>],
      user_input_value = Some [],
      fake_typing_disabled = False\<rparr>"
  by (rule step_submit_bound [where globals = example_globals,
        OF example_globals_cv_app example_query])

text \<open>With \<open>cv_app\<close> bound, the submit branch does append in order.\<close>

lemma bound_session_in_order:
  "chat_store (session example_services example_globals
      [Submit (Some ''Q1''), Submit (Some ''Q2''), Submit (Some ''Q3'')]) =
   [\<lparr>user = Some ''Q1'', bot = ''Based on these CV sections:'' @ nl @
             ''[Experience]'' @ nl @ ''X'' @ nl @ nl @ ''Question: Q1''\<rparr>,
    \<lparr>user = Some ''Q2'', bot = ''Based on these CV sections:'' @ nl @
             ''[Experience]'' @ nl @ ''X'' @ nl @ nl @ ''Question: Q2''\<rparr>,
    \<lparr>user = Some ''Q3'', bot = ''Based on these CV sections:'' @ nl @
             ''[Experience]'' @ nl @ ''X'' @ nl @ nl @ ''Question: Q3''\<rparr>]"
  by (simp add: session_def example_step initial_ui_def del: step.simps)

text \<open>
  Claim C3. Three questions submitted in sequence to the module as it is written: each
  submit raises NameError before \<open>chat_history.append\<close>, so the chat store stays empty and
  no transcript is rendered; the answers A1, A2, A3 are never listed. (With \<open>cv_app\<close> bound,
  \<open>bound_session_in_order\<close> shows the submit branch appending the pairs in order.)
\<close>

theorem module_session_three_questions:
  "session example_services module_globals
      [Submit (Some ''Q1''), Submit (Some ''Q2''), Submit (Some ''Q3'')] =
   \<lparr>chat_history_children = [], chat_store = [], user_input_value = Some ''Q3'',
    fake_typing_disabled = True\<rparr>"
  by (simp add: session_def step_submit_unbound [where globals = module_globals, OF module_globals_cv_app] initial_ui_def
        del: step.simps)

text \<open>
  Claim C4. The module run as \<open>__main__\<close> with \<open>OPENAI_API_KEY\<close> absent: \<open>__init__\<close>
  would raise ValueError, but the module never calls it, and the run ends with the server
  listening on 0.0.0.0:7860.
\<close>

theorem module_listens_without_api_key:
  "CVQueryApp_init (\<lambda>bucket prefix. Inr []) (\<lambda>fs folder emb. Inr ()) Map.empty Map.empty =
     Inl (ValueError ''OPENAI_API_KEY not found!'')
   \<and> run_module (\<lambda>s. Inl (ValueError ''invalid literal for int()'')) ''/tmp/tmpcred''
       ''__main__'' Map.empty Map.empty =
     Inr \<lparr>proc_environ = Map.empty, proc_files = Map.empty,
          proc_globals = (module_globals :: unit namespace),
          listening = Some (''0.0.0.0'', 7860)\<rparr>"
  by (simp add: CVQueryApp_init_def run_module_def write_credentials_def)

lemma step_tick:
  "step sv globals s Tick = s\<lparr>fake_typing_disabled := True\<rparr>"
  by (simp add: run_callback_def update_chat_not_submit [OF prop_id_evals(2)])



text \<open>
  With \<open>cv_app\<close> bound to an instance, the submit branch returns the answer together with
  the typing indicator and enables the interval; the tick that follows disables the interval
  and leaves the transcript as it is.
\<close>

lemma bound_submit_then_tick:
  "chat_history_children (session example_services example_globals [Submit (Some ''Q'')]) =
     render_history [] [\<lparr>user = Some ''Q'', bot = ''Based on these CV sections:'' @ nl @
             ''[Experience]'' @ nl @ ''X'' @ nl @ nl @ ''Question: Q''\<rparr>] @ [typing_indicator]
   \<and> \<not> fake_typing_disabled (session example_services example_globals [Submit (Some ''Q'')])
   \<and> chat_history_children
        (session example_services example_globals [Submit (Some ''Q''), Tick]) =
       chat_history_children (session example_services example_globals [Submit (Some ''Q'')])
   \<and> fake_typing_disabled
        (session example_services example_globals [Submit (Some ''Q''), Tick])"
  by (simp add: session_def example_step step_tick initial_ui_def del: step.simps)



text \<open>
  Claim C9. A whitespace-only question submitted to the module as it is written raises
  NameError like every other question and reaches no part of the pipeline; \<open>query\<close> itself
  would pass it on unchanged.
\<close>

theorem blank_question_not_processed:
  "update_chat example_services module_globals [''submit-button.n_clicks''] (Some 1) None
     (Some ''   '') [] = Inl (NameError (''name '' @ quoted ''cv_app'' @ '' is not defined''))
   \<and> query example_services example_app (Some ''   '') =
       Inr (''Based on these CV sections:'' @ nl @ ''[Experience]'' @ nl @ ''X'' @ nl @ nl @
            ''Question:    '')"
  by (simp add: update_chat_submit_unbound [where globals = module_globals, OF prop_id_evals(1) module_globals_cv_app]
        example_query)

section \<open>Properties of the Index Fetcher\<close>

lemma basename_no_slash: "CHR ''/'' \<notin> set (basename p)"
proof -
  have "\<forall>c \<in> set (takeWhile (\<lambda>c. c \<noteq> CHR ''/'') (rev p)). c \<noteq> CHR ''/''"
    by (auto dest: set_takeWhileD)
  then show ?thesis by (auto simp: basename_def)
qed

lemma startswith_slash: "startswith s ''/'' \<Longrightarrow> CHR ''/'' \<in> set s"
  by (cases s) auto

lemma path_join_basename:
  "path_join d (basename n) =
     (if d = [] \<or> endswith d ''/'' then d @ basename n else d @ ''/'' @ basename n)"
  using basename_no_slash [of n] startswith_slash [of "basename n"]
  by (auto simp: path_join_def)

lemma spec_local_path_inj:
  "spec_local_path d b = spec_local_path d b' \<longleftrightarrow>
   basename (blob_name b) = basename (blob_name b')"
  by (auto simp: spec_local_path_def path_join_basename)

text \<open>What a successful run needs of the listing and of the file system it starts from.\<close>

lemma download_blobs_needs:
  "download_blobs fs d bs = Inr fs' \<Longrightarrow> b \<in> set (remaining bs) \<Longrightarrow>
   (\<exists>bytes. blob_download b = Inr bytes) \<and> fs (spec_local_path d b) \<noteq> Some Dir"
proof (induction bs arbitrary: fs)
  case Nil
  then show ?case by (simp add: remaining_def)
next
  case (Cons a bs)
  show ?case
  proof (cases "endswith (blob_name a) ''/''")
    case True
    with Cons.prems have "download_blobs fs d bs = Inr fs'" "b \<in> set (remaining bs)"
      by (auto simp: remaining_def)
    then show ?thesis by (rule Cons.IH)
  next
    case False
    from Cons.prems(1) False obtain bytes where
      a: "blob_download a = Inr bytes" "fs (spec_local_path d a) \<noteq> Some Dir"
      and rest: "download_blobs (fs(spec_local_path d a \<mapsto> File bytes)) d bs = Inr fs'"
      by (auto simp: download_to_filename_def spec_local_path_def Let_def
            split: option.splits node.splits sum.splits)
    show ?thesis
    proof (cases "b = a")
      case True
      with a show ?thesis by auto
    next
      case False
      with Cons.prems(2) have "b \<in> set (remaining bs)" by (auto simp: remaining_def split: if_splits)
      from Cons.IH [OF rest this] a show ?thesis
        by (auto split: if_splits)
    qed
  qed
qed

text \<open>The file system a run produces, path by path.\<close>

lemma spec_last_write_Cons_skip:
  "endswith (blob_name a) ''/'' \<Longrightarrow> spec_last_write d (a # bs) p = spec_last_write d bs p"
  by (simp add: spec_last_write_def remaining_def)

lemma spec_last_write_Cons_keep:
  "\<not> endswith (blob_name a) ''/'' \<Longrightarrow>
   spec_last_write d (a # bs) p =
     (case spec_last_write d bs p of
        Some b \<Rightarrow> Some b
      | None \<Rightarrow> if spec_local_path d a = p then Some a else None)"
  by (auto simp: spec_last_write_def remaining_def split: list.splits)

lemma download_blobs_result:
  "download_blobs fs d bs = Inr fs' \<Longrightarrow>
   fs' p = (case spec_last_write d bs p of
              None \<Rightarrow> fs p
            | Some b \<Rightarrow> (case blob_download b of Inr bytes \<Rightarrow> Some (File bytes) | Inl e \<Rightarrow> None))"
proof (induction bs arbitrary: fs)
  case Nil
  then show ?case by (simp add: spec_last_write_def remaining_def)
next
  case (Cons a bs)
  show ?case
  proof (cases "endswith (blob_name a) ''/''")
    case True
    with Cons.prems have "download_blobs fs d bs = Inr fs'" by simp
    from Cons.IH [OF this] True show ?thesis by (simp add: spec_last_write_Cons_skip)
  next
    case False
    from Cons.prems False obtain bytes where
      a: "blob_download a = Inr bytes"
      and rest: "download_blobs (fs(spec_local_path d a \<mapsto> File bytes)) d bs = Inr fs'"
      by (auto simp: download_to_filename_def spec_local_path_def Let_def
            split: option.splits node.splits sum.splits)
    from Cons.IH [OF rest] False a show ?thesis
      by (auto simp: spec_last_write_Cons_keep split: option.splits)
  qed
qed

lemma spec_last_write_SomeD:
  "spec_last_write d bs p = Some b \<Longrightarrow> b \<in> set (remaining bs) \<and> spec_local_path d b = p"
proof -
  assume "spec_last_write d bs p = Some b"
  then obtain rest where
    "rev (filter (\<lambda>b. spec_local_path d b = p) (remaining bs)) = b # rest"
    by (auto simp: spec_last_write_def split: list.splits)
  then have "b \<in> set (rev (filter (\<lambda>b. spec_local_path d b = p) (remaining bs)))"
    by simp
  then show ?thesis by simp
qed

lemma spec_last_write_remaining:
  "b \<in> set (remaining bs) \<Longrightarrow> spec_last_write d bs (spec_local_path d b) \<noteq> None"
proof -
  assume "b \<in> set (remaining bs)"
  then have "filter (\<lambda>b'. spec_local_path d b' = spec_local_path d b) (remaining bs) \<noteq> []"
    by (auto simp: filter_empty_conv)
  then have "rev (filter (\<lambda>b'. spec_local_path d b' = spec_local_path d b) (remaining bs)) \<noteq> []"
    by simp
  then show ?thesis by (auto simp: spec_last_write_def split: list.splits)
qed

text \<open>A run succeeds when every remaining object downloads and no local path is a directory.\<close>

lemma download_blobs_succeeds:
  "\<forall>b \<in> set (remaining bs). (\<exists>bytes. blob_download b = Inr bytes) \<and> g (spec_local_path d b) \<noteq> Some Dir
   \<Longrightarrow> \<exists>g'. download_blobs g d bs = Inr g'"
proof (induction bs arbitrary: g)
  case Nil
  then show ?case by simp
next
  case (Cons a bs)
  show ?case
  proof (cases "endswith (blob_name a) ''/''")
    case True
    with Cons.prems have "\<forall>b \<in> set (remaining bs).
        (\<exists>bytes. blob_download b = Inr bytes) \<and> g (spec_local_path d b) \<noteq> Some Dir"
      by (simp add: remaining_def)
    from Cons.IH [OF this] True show ?thesis by simp
  next
    case False
    with Cons.prems obtain bytes where
      a: "blob_download a = Inr bytes" "g (spec_local_path d a) \<noteq> Some Dir"
      by (auto simp: remaining_def)
    from Cons.prems False have "\<forall>b \<in> set (remaining bs). (\<exists>bytes. blob_download b = Inr bytes) \<and>
        (g(spec_local_path d a \<mapsto> File bytes)) (spec_local_path d b) \<noteq> Some Dir"
      by (simp add: remaining_def)
    from Cons.IH [OF this] obtain g' where
      "download_blobs (g(spec_local_path d a \<mapsto> File bytes)) d bs = Inr g'" ..
    with False a show ?thesis
      by (auto simp: download_to_filename_def spec_local_path_def Let_def
            split: option.splits node.splits)
  qed
qed

text \<open>A second run over the same listing, from the file system the first one left.\<close>

lemma download_blobs_idempotent:
  assumes run: "download_blobs fs d bs = Inr fs'"
  shows "download_blobs fs' d bs = Inr fs'"
proof -
  have isfile: "\<exists>bytes. fs' (spec_local_path d b) = Some (File bytes)"
    if b: "b \<in> set (remaining bs)" for b
  proof -
    from spec_last_write_remaining [OF b] obtain b' where
      l: "spec_last_write d bs (spec_local_path d b) = Some b'" by auto
    from spec_last_write_SomeD [OF l] have "b' \<in> set (remaining bs)" by simp
    from download_blobs_needs [OF run this] obtain bytes where "blob_download b' = Inr bytes"
      by auto
    with download_blobs_result [OF run, of "spec_local_path d b"] l show ?thesis by simp
  qed
  have "\<forall>b \<in> set (remaining bs).
      (\<exists>bytes. blob_download b = Inr bytes) \<and> fs' (spec_local_path d b) \<noteq> Some Dir"
  proof
    fix b assume b: "b \<in> set (remaining bs)"
    from download_blobs_needs [OF run b] isfile [OF b]
    show "(\<exists>bytes. blob_download b = Inr bytes) \<and> fs' (spec_local_path d b) \<noteq> Some Dir"
      by auto
  qed
  from download_blobs_succeeds [OF this] obtain fs'' where
    again: "download_blobs fs' d bs = Inr fs''" ..
  have "fs'' p = fs' p" for p
    using download_blobs_result [OF again, of p] download_blobs_result [OF run, of p]
    by (auto split: option.splits sum.splits)
  then have "fs'' = fs'" by (rule ext)
  with again show ?thesis by simp
qed

lemma makedirs_result:
  "makedirs fs d = Inr fs1 \<Longrightarrow> fs1 = fs(d \<mapsto> Dir)"
  by (auto simp: makedirs_def split: if_splits option.splits node.splits)

lemma fetch_unfold:
  assumes listing: "list_blobs bucket_name source_folder = Inr blobs"
    and run: "download_index_folder list_blobs fs bucket_name source_folder destination = Inr fs'"
  shows "destination \<noteq> [] \<and> download_blobs (fs(destination \<mapsto> Dir)) destination blobs = Inr fs'"
proof -
  from run listing obtain fs1 where
    mk: "makedirs fs destination = Inr fs1"
    and dl: "download_blobs fs1 destination blobs = Inr fs'"
    by (auto simp: download_index_folder_def split: sum.splits)
  have "fs1 = fs(destination \<mapsto> Dir)" using mk by (rule makedirs_result)
  moreover have "destination \<noteq> []" using mk by (auto simp: makedirs_def split: if_splits)
  ultimately show ?thesis using dl by simp
qed

lemma fetch_written:
  assumes listing: "list_blobs bucket_name source_folder = Inr blobs"
    and run: "download_index_folder list_blobs fs bucket_name source_folder destination = Inr fs'"
    and l: "spec_last_write destination blobs p = Some b"
  shows "\<exists>bytes. blob_download b = Inr bytes \<and> fs' p = Some (File bytes)"
proof -
  from fetch_unfold [OF listing run]
  have dl: "download_blobs (fs(destination \<mapsto> Dir)) destination blobs = Inr fs'" by simp
  from spec_last_write_SomeD [OF l] have "b \<in> set (remaining blobs)" by simp
  from download_blobs_needs [OF dl this] obtain bytes where "blob_download b = Inr bytes"
    by auto
  with download_blobs_result [OF dl, of p] l show ?thesis by simp
qed

lemma fetch_untouched:
  assumes listing: "list_blobs bucket_name source_folder = Inr blobs"
    and run: "download_index_folder list_blobs fs bucket_name source_folder destination = Inr fs'"
    and l: "spec_last_write destination blobs p = None"
  shows "fs' p = (if p = destination then Some Dir else fs p)"
proof -
  from fetch_unfold [OF listing run]
  have dl: "download_blobs (fs(destination \<mapsto> Dir)) destination blobs = Inr fs'" by simp
  from download_blobs_result [OF dl, of p] l show ?thesis by simp
qed

lemma fetch_again:
  assumes listing: "list_blobs bucket_name source_folder = Inr blobs"
    and run: "download_index_folder list_blobs fs bucket_name source_folder destination = Inr fs'"
  shows "download_index_folder list_blobs fs' bucket_name source_folder destination = Inr fs'"
proof -
  from fetch_unfold [OF listing run]
  have nonempty: "destination \<noteq> []"
    and dl: "download_blobs (fs(destination \<mapsto> Dir)) destination blobs = Inr fs'" by simp_all
  have "spec_last_write destination blobs destination = None"
  proof (rule ccontr)
    assume "spec_last_write destination blobs destination \<noteq> None"
    then obtain b where l: "spec_last_write destination blobs destination = Some b" by auto
    from spec_last_write_SomeD [OF l] have b: "b \<in> set (remaining blobs)"
      and p: "spec_local_path destination b = destination" by simp_all
    from download_blobs_needs [OF dl b] p show False by simp
  qed
  from fetch_untouched [OF listing run this] have "fs' destination = Some Dir" by simp
  then have "makedirs fs' destination = Inr fs'"
    using nonempty by (simp add: makedirs_def fun_upd_idem)
  with download_blobs_idempotent [OF dl] listing show ?thesis
    by (simp add: download_index_folder_def)
qed

lemma example_run:
  "download_index_folder example_storage Map.empty ''bucket'' ''i'' ''d'' = Inr example_fetched"
  by (simp add: download_index_folder_def example_storage_def example_listing_def
        makedirs_def endswith_def download_to_filename_def path_join_def basename_def
        example_fetched_def fun_upd_twist)

lemma not_distinct_card: "\<not> distinct xs \<Longrightarrow> card (set xs) < length xs"
  using card_length [of xs] card_distinct [of xs] by linarith

lemma written_paths:
  "{p. spec_last_write d bs p \<noteq> None} = set (map (spec_local_path d) (remaining bs))"
proof (intro set_eqI iffI)
  fix p assume "p \<in> {p. spec_last_write d bs p \<noteq> None}"
  then obtain b where "spec_last_write d bs p = Some b" by auto
  from spec_last_write_SomeD [OF this] show "p \<in> set (map (spec_local_path d) (remaining bs))"
    by auto
next
  fix p assume "p \<in> set (map (spec_local_path d) (remaining bs))"
  then obtain b where "b \<in> set (remaining bs)" "p = spec_local_path d b" by auto
  with spec_last_write_remaining [of b bs d] show "p \<in> {p. spec_last_write d bs p \<noteq> None}"
    by simp
qed

text \<open>
  Claim C7. For a run of \<open>download_index_folder\<close> that succeeds on a listing: a local path
  to which some remaining object maps (an object whose key does not end in the path
  separator; the others are skipped and write nothing) holds the bytes of the object written
  to it last, whatever was there before; every other path is as it was, the destination
  directory apart; and running the fetcher again from the resulting file system, over the
  same listing, succeeds and leaves every file byte for byte the same.
\<close>

theorem index_fetcher_idempotent:
  assumes listing: "list_blobs bucket_name source_folder = Inr blobs"
    and run: "download_index_folder list_blobs fs bucket_name source_folder destination = Inr fs'"
  shows "(\<forall>p b. spec_last_write destination blobs p = Some b \<longrightarrow>
            (\<exists>bytes. blob_download b = Inr bytes \<and> fs' p = Some (File bytes)))
       \<and> (\<forall>p. spec_last_write destination blobs p = None \<longrightarrow>
            fs' p = (if p = destination then Some Dir else fs p))
       \<and> download_index_folder list_blobs fs' bucket_name source_folder destination = Inr fs'"
  using fetch_written [OF listing run] fetch_untouched [OF listing run]
    fetch_again [OF listing run]
  by blast

theorem index_fetcher_idempotent_witness:
  "example_storage ''bucket'' ''i'' = Inr example_listing
   \<and> download_index_folder example_storage Map.empty ''bucket'' ''i'' ''d'' = Inr example_fetched
   \<and> download_index_folder example_storage example_fetched ''bucket'' ''i'' ''d'' =
       Inr example_fetched"
proof -
  have l: "example_storage ''bucket'' ''i'' = Inr example_listing"
    by (simp add: example_storage_def)
  from index_fetcher_idempotent [OF l example_run] l example_run show ?thesis by blast
qed

text \<open>
  Claim C10. The local path depends on the basename of the key alone. When two remaining
  objects of the listing have the same basename, both map to the same local file, which
  after the run holds the bytes of the later one (when no object after it has that basename
  again); and the run then writes fewer local files than the listing has objects.
\<close>

theorem same_basename_overwrites:
  assumes listing: "list_blobs bucket_name source_folder = Inr (xs @ b1 # ys @ b2 # zs)"
    and run: "download_index_folder list_blobs fs bucket_name source_folder destination = Inr fs'"
    and k1: "\<not> endswith (blob_name b1) ''/''"
    and k2: "\<not> endswith (blob_name b2) ''/''"
    and same: "basename (blob_name b1) = basename (blob_name b2)"
    and later: "\<forall>b \<in> set zs. \<not> endswith (blob_name b) ''/'' \<longrightarrow>
                  basename (blob_name b) \<noteq> basename (blob_name b2)"
  shows "path_join destination (basename (blob_name b1)) =
           path_join destination (basename (blob_name b2))
       \<and> (\<exists>bytes. blob_download b2 = Inr bytes \<and>
            fs' (path_join destination (basename (blob_name b1))) = Some (File bytes))
       \<and> card {p. spec_last_write destination (xs @ b1 # ys @ b2 # zs) p \<noteq> None}
           < length (xs @ b1 # ys @ b2 # zs)"
proof -
  let ?bs = "xs @ b1 # ys @ b2 # zs"
  let ?p = "spec_local_path destination b2"
  have p1: "spec_local_path destination b1 = ?p"
    using same by (simp add: spec_local_path_def)
  have "filter (\<lambda>b. spec_local_path destination b = ?p) (remaining zs) = []"
    using later by (auto simp: filter_empty_conv remaining_def spec_local_path_inj)
  then have "spec_last_write destination ?bs ?p = Some b2"
    using k1 k2 by (simp add: spec_last_write_def remaining_def)
  from fetch_written [OF listing run this] p1
  have second: "\<exists>bytes. blob_download b2 = Inr bytes \<and>
      fs' (path_join destination (basename (blob_name b1))) = Some (File bytes)"
    by (simp add: spec_local_path_def)
  have "remaining ?bs = remaining xs @ b1 # remaining ys @ b2 # remaining zs"
    using k1 k2 by (simp add: remaining_def)
  then have "\<not> distinct (map (spec_local_path destination) (remaining ?bs))"
    using p1 by simp
  from not_distinct_card [OF this]
  have "card {p. spec_last_write destination ?bs p \<noteq> None} < length (remaining ?bs)"
    by (simp only: written_paths length_map)
  also have "length (remaining ?bs) \<le> length ?bs"
    unfolding remaining_def by (rule length_filter_le)
  finally show ?thesis using same second by simp
qed

theorem same_basename_overwrites_witness:
  "example_storage ''bucket'' ''i'' =
     Inr ([\<lparr>blob_name = ''i/'', blob_download = Inr []\<rparr>] @
          \<lparr>blob_name = ''i/a/x'', blob_download = Inr ''AAA''\<rparr> # [] @
          \<lparr>blob_name = ''i/b/x'', blob_download = Inr ''BBB''\<rparr> #
          [\<lparr>blob_name = ''i/y'', blob_download = Inr ''YYY''\<rparr>])
   \<and> download_index_folder example_storage Map.empty ''bucket'' ''i'' ''d'' = Inr example_fetched
   \<and> basename ''i/a/x'' = basename ''i/b/x''
   \<and> example_fetched (path_join ''d'' (basename ''i/a/x'')) = Some (File ''BBB'')
   \<and> card {p. spec_last_write ''d'' example_listing p \<noteq> None} < 4"
proof -
  have l: "example_storage ''bucket'' ''i'' =
     Inr ([\<lparr>blob_name = ''i/'', blob_download = Inr []\<rparr>] @
          \<lparr>blob_name = ''i/a/x'', blob_download = Inr ''AAA''\<rparr> # [] @
          \<lparr>blob_name = ''i/b/x'', blob_download = Inr ''BBB''\<rparr> #
          [\<lparr>blob_name = ''i/y'', blob_download = Inr ''YYY''\<rparr>])"
    by (simp add: example_storage_def example_listing_def)
  have k1: "\<not> endswith (blob_name \<lparr>blob_name = ''i/a/x'', blob_download = Inr ''AAA''\<rparr>) ''/''"
    by (simp add: endswith_def)
  have k2: "\<not> endswith (blob_name \<lparr>blob_name = ''i/b/x'', blob_download = Inr ''BBB''\<rparr>) ''/''"
    by (simp add: endswith_def)
  have same: "basename (blob_name \<lparr>blob_name = ''i/a/x'', blob_download = Inr ''AAA''\<rparr>) =
      basename (blob_name \<lparr>blob_name = ''i/b/x'', blob_download = Inr ''BBB''\<rparr>)"
    by (simp add: basename_def)
  have later: "\<forall>b \<in> set [\<lparr>blob_name = ''i/y'', blob_download = Inr ''YYY''\<rparr>].
      \<not> endswith (blob_name b) ''/'' \<longrightarrow>
      basename (blob_name b) \<noteq>
        basename (blob_name \<lparr>blob_name = ''i/b/x'', blob_download = Inr ''BBB''\<rparr>)"
    by (simp add: basename_def)
  from same_basename_overwrites [OF l example_run k1 k2 same later] l example_run same
  show ?thesis by (simp add: example_listing_def)
qed
section \<open>Properties of the retriever\<close>

lemma take_best_mset:
  "take_best score x xs = (b, rest) \<Longrightarrow> mset (b # rest) = mset (x # xs)"
proof (induction xs arbitrary: x b rest)
  case Nil
  then show ?case by simp
next
  case (Cons y ys)
  obtain b' rest' where t: "take_best score y ys = (b', rest')" by (cases "take_best score y ys")
  from Cons.IH [OF t] have m: "mset (b' # rest') = mset (y # ys)" .
  show ?case
  proof (cases "score b' \<le> score x")
    case True
    with Cons.prems t show ?thesis by simp
  next
    case False
    with Cons.prems t have "b = b'" "rest = x # rest'" by simp_all
    with m show ?thesis by simp
  qed
qed

lemma take_best_max:
  "take_best score x xs = (b, rest) \<Longrightarrow> \<forall>y \<in> set (x # xs). score y \<le> score b"
proof (induction xs arbitrary: x b rest)
  case Nil
  then show ?case by simp
next
  case (Cons y ys)
  obtain b' rest' where t: "take_best score y ys = (b', rest')" by (cases "take_best score y ys")
  from Cons.IH [OF t] have m: "\<forall>z \<in> set (y # ys). score z \<le> score b'" .
  show ?case
  proof (cases "score b' \<le> score x")
    case True
    with Cons.prems t have "b = x" by simp
    with m True show ?thesis by auto
  next
    case False
    with Cons.prems t have "b = b'" by simp
    with m False show ?thesis by auto
  qed
qed

lemma mmr_select_mset:
  "mset (mmr_select sim dv qv n pool sel) \<subseteq># mset pool"
proof (induction n arbitrary: pool sel)
  case 0
  then show ?case by simp
next
  case (Suc n)
  show ?case
  proof (cases pool)
    case Nil
    then show ?thesis by simp
  next
    case (Cons c cs)
    obtain b rest where t: "take_best (mmr_score sim dv qv sel) c cs = (b, rest)"
      by (cases "take_best (mmr_score sim dv qv sel) c cs")
    from take_best_mset [OF t] have m: "mset pool = add_mset b (mset rest)"
      using Cons by simp
    from Suc.IH [of rest "sel @ [b]"]
    have "add_mset b (mset (mmr_select sim dv qv n rest (sel @ [b]))) \<subseteq># add_mset b (mset rest)"
      by simp
    with t m Cons show ?thesis by simp
  qed
qed

lemma mmr_select_length:
  "length (mmr_select sim dv qv n pool sel) = min n (length pool)"
proof (induction n arbitrary: pool sel)
  case 0
  then show ?case by simp
next
  case (Suc n)
  show ?case
  proof (cases pool)
    case Nil
    then show ?thesis by simp
  next
    case (Cons c cs)
    obtain b rest where t: "take_best (mmr_score sim dv qv sel) c cs = (b, rest)"
      by (cases "take_best (mmr_score sim dv qv sel) c cs")
    from take_best_mset [OF t] have "size (mset (b # rest)) = size (mset (c # cs))" by simp
    then have "length rest = length cs" by simp
    with Suc.IH [of rest "sel @ [b]"] t Cons show ?thesis by simp
  qed
qed

lemma nearest_length: "length (nearest distance index qv n) = min n (length index)"
  by (simp add: nearest_def min.commute)

lemma retrieve_length:
  "length (retrieve distance similarity index qv n_k n_fetch dv) =
     min n_k (min n_fetch (length index))"
  by (simp add: retrieve_def mmr_select_length nearest_length)

lemma retrieve_mset:
  "mset (retrieve distance similarity index qv n_k n_fetch dv)
     \<subseteq># mset (map fst (nearest distance index qv n_fetch))"
  unfolding retrieve_def mset_map by (rule image_mset_subseteq_mono [OF mmr_select_mset])

lemma example_retrieve:
  "mmr_retriever example_embed example_distance example_similarity example_index
     query_retriever_args (Some ''skills?'') =
   Inr [\<lparr>metadata = [''section'' \<mapsto> ''Experience''], page_content = ''X''\<rparr>,
        \<lparr>metadata = [''section'' \<mapsto> ''Skills''], page_content = ''Y''\<rparr>,
        \<lparr>metadata = [''section'' \<mapsto> ''Projects''], page_content = ''Z''\<rparr>]"
  by (simp add: mmr_retriever_def example_embed_def retrieve_def nearest_def example_index_def
        query_retriever_args_def example_distance_def example_similarity_def mmr_score_def
        eval_nat_numeral)

lemma indexed_query_try:
  "query_try indexed_services indexed_app (Some ''skills?'') =
     Inr (''Based on these CV sections:'' @ [CHR 0x0A] @
          ''[Experience]'' @ [CHR 0x0A] @ ''X'' @ [CHR 0x0A] @
          ''[Skills]'' @ [CHR 0x0A] @ ''Y'' @ [CHR 0x0A] @
          ''[Projects]'' @ [CHR 0x0A] @ ''Z'' @ [CHR 0x0A] @ [CHR 0x0A] @
          ''Question: skills?'')"
  by (simp add: query_try_def indexed_services_def indexed_app_def example_retrieve
        assemble_context_def context_block_def make_request_def user_prompt_def
        first_choice_def nl_def)

text \<open>
  Claim C2. \<open>query\<close> invokes the retriever of its vector store with search type \<open>mmr\<close>,
  \<open>k = 8\<close>, \<open>fetch_k = 20\<close> and diversity 0.7, whatever the collaborators are: the body of
  its \<open>try\<close> block is that one call, followed by context assembly and the completion call on
  the chunks it returned. Where the retriever is maximal-marginal-relevance retrieval and the
  query is embedded, that call returns, and \<open>query\<close> goes on with, the chunks in the order
  they are selected: exactly \<open>min 8 (number of chunks in the index)\<close> of them, so at most 8,
  each among the 20 nearest neighbours of the query's embedding, none more often than it
  occurs there.
\<close>

theorem retrieval_bound:
  "(\<forall>(sv :: 'vs services) self question.
      query_try sv self question =
        (case get_relevant_documents sv (vector_store self)
                \<lparr>search_type = ''mmr'', arg_k = 8, arg_fetch_k = 20, arg_lambda_mult = 7 / 10\<rparr>
                question of
           Inl e \<Rightarrow> Inl e
         | Inr docs \<Rightarrow>
             (case assemble_context docs of
                Inl e \<Rightarrow> Inl e
              | Inr context \<Rightarrow>
                  (case completions_create sv (client self) (make_request context question) of
                     Inl e \<Rightarrow> Inl e
                   | Inr response \<Rightarrow> first_choice response))))
   \<and> (\<forall>(sv :: 'v vector_index services) self question embed_query distance similarity qv.
        get_relevant_documents sv = mmr_retriever embed_query distance similarity \<and>
        embed_query question = Inr qv \<longrightarrow>
        (\<exists>docs.
            get_relevant_documents sv (vector_store self)
              \<lparr>search_type = ''mmr'', arg_k = 8, arg_fetch_k = 20, arg_lambda_mult = 7 / 10\<rparr>
              question = Inr docs
          \<and> query_try sv self question =
              (case assemble_context docs of
                 Inl e \<Rightarrow> Inl e
               | Inr context \<Rightarrow>
                   (case completions_create sv (client self) (make_request context question) of
                      Inl e \<Rightarrow> Inl e
                    | Inr response \<Rightarrow> first_choice response))
          \<and> docs = map fst (mmr_select similarity (7 / 10) qv 8
                              (nearest distance (vector_store self) qv 20) [])
          \<and> length docs = min 8 (length (vector_store self))
          \<and> length docs \<le> 8
          \<and> mset docs \<subseteq># mset (map fst (nearest distance (vector_store self) qv 20))
          \<and> set docs \<subseteq> set (map fst (nearest distance (vector_store self) qv 20))))"
proof (intro conjI allI impI)
  fix sv :: "'vs services" and self question
  show "query_try sv self question =
        (case get_relevant_documents sv (vector_store self)
                \<lparr>search_type = ''mmr'', arg_k = 8, arg_fetch_k = 20, arg_lambda_mult = 7 / 10\<rparr>
                question of
           Inl e \<Rightarrow> Inl e
         | Inr docs \<Rightarrow>
             (case assemble_context docs of
                Inl e \<Rightarrow> Inl e
              | Inr context \<Rightarrow>
                  (case completions_create sv (client self) (make_request context question) of
                     Inl e \<Rightarrow> Inl e
                   | Inr response \<Rightarrow> first_choice response)))"
    by (simp add: query_try_def query_retriever_args_def)
next
  fix sv :: "'v vector_index services" and self :: "'v vector_index CVQueryApp"
    and question embed_query distance similarity and qv :: 'v
  assume a: "get_relevant_documents sv = mmr_retriever embed_query distance similarity \<and>
        embed_query question = Inr qv"
  let ?index = "vector_store self"
  let ?args = "\<lparr>search_type = ''mmr'', arg_k = 8, arg_fetch_k = 20, arg_lambda_mult = 7 / 10\<rparr>"
  let ?docs = "retrieve distance similarity ?index qv 8 20 (7 / 10)"
  from a have r: "get_relevant_documents sv ?index ?args question = Inr ?docs"
    by (simp add: mmr_retriever_def)
  then have q: "query_try sv self question =
              (case assemble_context ?docs of
                 Inl e \<Rightarrow> Inl e
               | Inr context \<Rightarrow>
                   (case completions_create sv (client self) (make_request context question) of
                      Inl e \<Rightarrow> Inl e
                    | Inr response \<Rightarrow> first_choice response))"
    by (simp add: query_try_def query_retriever_args_def)
  have d: "?docs = map fst (mmr_select similarity (7 / 10) qv 8 (nearest distance ?index qv 20) [])"
    by (simp add: retrieve_def)
  have l: "length ?docs = min 8 (length ?index)"
    by (simp add: retrieve_length)
  then have l8: "length ?docs \<le> 8" by simp
  have m: "mset ?docs \<subseteq># mset (map fst (nearest distance ?index qv 20))"
    by (rule retrieve_mset)
  from set_mset_mono [OF m]
  have s: "set ?docs \<subseteq> set (map fst (nearest distance ?index qv 20))"
    by (simp only: set_mset_mset)
  from r q d l l8 m s
  show "\<exists>docs.
            get_relevant_documents sv (vector_store self) ?args question = Inr docs
          \<and> query_try sv self question =
              (case assemble_context docs of
                 Inl e \<Rightarrow> Inl e
               | Inr context \<Rightarrow>
                   (case completions_create sv (client self) (make_request context question) of
                      Inl e \<Rightarrow> Inl e
                    | Inr response \<Rightarrow> first_choice response))
          \<and> docs = map fst (mmr_select similarity (7 / 10) qv 8
                              (nearest distance (vector_store self) qv 20) [])
          \<and> length docs = min 8 (length (vector_store self))
          \<and> length docs \<le> 8
          \<and> mset docs \<subseteq># mset (map fst (nearest distance (vector_store self) qv 20))
          \<and> set docs \<subseteq> set (map fst (nearest distance (vector_store self) qv 20))"
    by (intro exI [of _ ?docs] conjI)
qed

theorem retrieval_bound_witness:
  "get_relevant_documents indexed_services =
     mmr_retriever example_embed example_distance example_similarity
   \<and> example_embed (Some ''skills?'') = Inr 0
   \<and> (\<exists>docs.
         get_relevant_documents indexed_services (vector_store indexed_app)
           \<lparr>search_type = ''mmr'', arg_k = 8, arg_fetch_k = 20, arg_lambda_mult = 7 / 10\<rparr>
           (Some ''skills?'') = Inr docs
       \<and> docs = [\<lparr>metadata = [''section'' \<mapsto> ''Experience''], page_content = ''X''\<rparr>,
                 \<lparr>metadata = [''section'' \<mapsto> ''Skills''], page_content = ''Y''\<rparr>,
                 \<lparr>metadata = [''section'' \<mapsto> ''Projects''], page_content = ''Z''\<rparr>]
       \<and> length docs = min 8 (length (vector_store indexed_app)) \<and> length docs \<le> 8
       \<and> set docs \<subseteq> set (map fst (nearest example_distance (vector_store indexed_app) 0 20)))
   \<and> query_try indexed_services indexed_app (Some ''skills?'') =
       Inr (''Based on these CV sections:'' @ [CHR 0x0A] @
            ''[Experience]'' @ [CHR 0x0A] @ ''X'' @ [CHR 0x0A] @
            ''[Skills]'' @ [CHR 0x0A] @ ''Y'' @ [CHR 0x0A] @
            ''[Projects]'' @ [CHR 0x0A] @ ''Z'' @ [CHR 0x0A] @ [CHR 0x0A] @
            ''Question: skills?'')"
proof -
  have g: "get_relevant_documents indexed_services =
      mmr_retriever example_embed example_distance example_similarity"
    by (simp add: indexed_services_def)
  have e: "example_embed (Some ''skills?'') = Inr 0" by (simp add: example_embed_def)
  have x: "get_relevant_documents indexed_services (vector_store indexed_app)
           \<lparr>search_type = ''mmr'', arg_k = 8, arg_fetch_k = 20, arg_lambda_mult = 7 / 10\<rparr>
           (Some ''skills?'') =
      Inr [\<lparr>metadata = [''section'' \<mapsto> ''Experience''], page_content = ''X''\<rparr>,
           \<lparr>metadata = [''section'' \<mapsto> ''Skills''], page_content = ''Y''\<rparr>,
           \<lparr>metadata = [''section'' \<mapsto> ''Projects''], page_content = ''Z''\<rparr>]"
    using example_retrieve by (simp add: indexed_services_def indexed_app_def query_retriever_args_def)
  from retrieval_bound [where 'v = rat and 'vs = unit]
  have "\<forall>(sv :: rat vector_index services) self question embed_query distance similarity qv.
        get_relevant_documents sv = mmr_retriever embed_query distance similarity \<and>
        embed_query question = Inr qv \<longrightarrow>
        (\<exists>docs.
            get_relevant_documents sv (vector_store self)
              \<lparr>search_type = ''mmr'', arg_k = 8, arg_fetch_k = 20, arg_lambda_mult = 7 / 10\<rparr>
              question = Inr docs
          \<and> query_try sv self question =
              (case assemble_context docs of
                 Inl e \<Rightarrow> Inl e
               | Inr context \<Rightarrow>
                   (case completions_create sv (client self) (make_request context question) of
                      Inl e \<Rightarrow> Inl e
                    | Inr response \<Rightarrow> first_choice response))
          \<and> docs = map fst (mmr_select similarity (7 / 10) qv 8
                              (nearest distance (vector_store self) qv 20) [])
          \<and> length docs = min 8 (length (vector_store self))
          \<and> length docs \<le> 8
          \<and> mset docs \<subseteq># mset (map fst (nearest distance (vector_store self) qv 20))
          \<and> set docs \<subseteq> set (map fst (nearest distance (vector_store self) qv 20)))"
    by (rule conjunct2)
  from this [rule_format, of indexed_services example_embed example_distance example_similarity
      "Some ''skills?''" 0 indexed_app, OF conjI [OF g e]]
  obtain docs where
    r: "get_relevant_documents indexed_services (vector_store indexed_app)
           \<lparr>search_type = ''mmr'', arg_k = 8, arg_fetch_k = 20, arg_lambda_mult = 7 / 10\<rparr>
           (Some ''skills?'') = Inr docs"
    and l: "length docs = min 8 (length (vector_store indexed_app))" "length docs \<le> 8"
    and s: "set docs \<subseteq> set (map fst (nearest example_distance (vector_store indexed_app) 0 20))"
    by blast
  from r x have d: "docs = [\<lparr>metadata = [''section'' \<mapsto> ''Experience''], page_content = ''X''\<rparr>,
                 \<lparr>metadata = [''section'' \<mapsto> ''Skills''], page_content = ''Y''\<rparr>,
                 \<lparr>metadata = [''section'' \<mapsto> ''Projects''], page_content = ''Z''\<rparr>]"
    by simp
  from g e r d l s indexed_query_try show ?thesis by blast
qed

end
